theory Spec2Isabelle
  imports Main
begin

section \<open>The discovery script \<open>server/scripts/discover_api.py\<close>\<close>

text \<open>
  The script goes through a list of Space identifiers. For each one it prints a banner,
  builds a \<open>gradio_client.Client\<close>, prints what \<open>client.view_api()\<close> returns, and on an
  \<open>Exception\<close> prints one line and goes on.

  The client library is not part of the repository: its two operations are parameters
  of the model. Each takes the state of the outside world (network, remote services)
  and returns a result together with the new state, so that the same identifier may be
  answered differently at different times. What the library may raise is split the way
  the handler \<open>except Exception as e\<close> splits it.
\<close>

subsection \<open>Exceptions, events, state\<close>

text \<open>
  The instances of \<open>BaseException\<close> that are not instances of \<open>Exception\<close>.
  \<open>SystemExit s\<close> is a \<open>SystemExit\<close> whose argument makes the interpreter end with exit
  status \<open>s\<close> when nothing catches it (0 for \<open>sys.exit()\<close>, \<open>SystemExit(None)\<close> and
  \<open>SystemExit(0)\<close>); the last constructor stands for the remaining classes
  (\<open>GeneratorExit\<close>, \<open>asyncio.CancelledError\<close>, a library's own), by name.
\<close>

datatype non_exception = SystemExit nat | KeyboardInterrupt | Other_non_exception string

text \<open>
  \<open>Exception d\<close> is an instance of Python's class \<open>Exception\<close> (or of a subclass) whose
  \<open>str()\<close> is \<open>d\<close>; \<open>NonException d\<close> is an instance \<open>d\<close> of \<open>BaseException\<close> that is not
  an \<open>Exception\<close>.
\<close>

datatype raised = Exception string | NonException non_exception

text \<open>
  What the script does that can be observed, in program order: each call of \<open>print\<close>
  with the text it is given (the console receives that text and a newline), and each
  call into the client library.
\<close>

datatype event = Print string | Call_Client string | Call_view_api

type_synonym 'w state = "'w \<times> event list"

type_synonym ('w, 'h) connect = "string \<Rightarrow> 'w \<Rightarrow> (raised + 'h) \<times> 'w"

text \<open>
  What \<open>view_api\<close> returns, as \<open>print\<close> meets it: a text that the console takes, or a
  text on which \<open>print\<close> raises (the console's encoding has no room for one of its
  characters: \<open>UnicodeEncodeError\<close>, an \<open>Exception\<close>; or the call is interrupted).
\<close>

datatype returned = Printable string | Unprintable string raised

type_synonym ('w, 'h) describe = "'h \<Rightarrow> 'w \<Rightarrow> (raised + returned) \<times> 'w"

definition print :: "string \<Rightarrow> event list \<Rightarrow> event list" where
  "print s tr = tr @ [Print s]"

fun printed :: "event \<Rightarrow> string list" where
  "printed (Print s) = [s]"
| "printed (Call_Client space) = []"
| "printed Call_view_api = []"

text \<open>The console transcript of a trace: the printed texts, in order.\<close>

definition stdout :: "event list \<Rightarrow> string list" where
  "stdout tr = concat (map printed tr)"

subsection \<open>The loop body\<close>

text \<open>
  The suite under \<open>try:\<close>. The three banner lines are taken to print. The two library
  calls may raise, and so may the last \<open>print\<close>, on what \<open>view_api\<close> returned; a raise
  leaves the suite at once, with nothing written by the statement that raised.
  \<^verbatim>\<open>
            print(f"\n{'='*60}")
            print(f"Discovering endpoints for: {space}")
            print('='*60)
            client = Client(space)
            print(client.view_api())
  \<close>
\<close>

definition try_suite ::
  "('w, 'h) connect \<Rightarrow> ('w, 'h) describe \<Rightarrow> string \<Rightarrow> 'w state \<Rightarrow> (raised + unit) \<times> 'w state"
where
  "try_suite Client view_api space st =
     (let tr1 = print (CHR 0x0A # replicate 60 (CHR ''='')) (snd st);
          tr2 = print (''Discovering endpoints for: '' @ space) tr1;
          tr3 = print (replicate 60 (CHR ''='')) tr2
      in case Client space (fst st) of
           (Inl e, w1) \<Rightarrow> (Inl e, (w1, tr3 @ [Call_Client space]))
         | (Inr client, w1) \<Rightarrow>
             (case view_api client w1 of
                (Inl e, w2) \<Rightarrow> (Inl e, (w2, tr3 @ [Call_Client space, Call_view_api]))
              | (Inr (Printable api), w2) \<Rightarrow>
                  (Inr (), (w2, print api (tr3 @ [Call_Client space, Call_view_api])))
              | (Inr (Unprintable api e), w2) \<Rightarrow>
                  (Inl e, (w2, tr3 @ [Call_Client space, Call_view_api]))))"

text \<open>
  The whole \<open>try\<close> statement, with its one handler, whose line is taken to print:
  \<^verbatim>\<open>
        except Exception as e:
            print(f"Failed to connect to {space}: {e}")
  \<close>
\<close>

definition try_except ::
  "('w, 'h) connect \<Rightarrow> ('w, 'h) describe \<Rightarrow> string \<Rightarrow> 'w state \<Rightarrow> (raised + unit) \<times> 'w state"
where
  "try_except Client view_api space st =
     (case try_suite Client view_api space st of
        (Inl (Exception e), (w, tr)) \<Rightarrow>
          (Inr (), (w, print (''Failed to connect to '' @ space @ '': '' @ e) tr))
      | (Inl (NonException e), st') \<Rightarrow> (Inl (NonException e), st')
      | (Inr u, st') \<Rightarrow> (Inr (), st'))"

subsection \<open>The loop, the function, the script\<close>

text \<open>\<open>for space in spaces:\<close> over any list; an exception that leaves the body ends it.\<close>

fun for_space_in ::
  "('w, 'h) connect \<Rightarrow> ('w, 'h) describe \<Rightarrow> string list \<Rightarrow> 'w state \<Rightarrow> (raised + unit) \<times> 'w state"
where
  "for_space_in Client view_api [] st = (Inr (), st)"
| "for_space_in Client view_api (space # rest) st =
     (case try_except Client view_api space st of
        (Inl e, st') \<Rightarrow> (Inl e, st')
      | (Inr u, st') \<Rightarrow> for_space_in Client view_api rest st')"

definition spaces :: "string list" where
  "spaces = [''innoai/Edge-TTS-Text-to-Speech'', ''k2-fsa/text-to-speech'']"

definition discover_endpoints ::
  "('w, 'h) connect \<Rightarrow> ('w, 'h) describe \<Rightarrow> 'w state \<Rightarrow> (raised + unit) \<times> 'w state"
where
  "discover_endpoints Client view_api st = for_space_in Client view_api spaces st"

text \<open>
  How the module ends: \<open>discover_endpoints\<close> returns and the module body runs to its
  end, or an exception leaves \<open>discover_endpoints\<close> and nothing catches it.
\<close>

datatype ending = Returned | Uncaught raised

fun module_end :: "raised + unit \<Rightarrow> ending" where
  "module_end (Inr u) = Returned"
| "module_end (Inl e) = Uncaught e"

text \<open>
  Whether the interpreter then ends with exit status 0. It does when the module body
  has run to its end, and on an uncaught \<open>SystemExit\<close> with status 0. Any other uncaught
  exception ends it otherwise: a \<open>SystemExit\<close> with its own status, a
  \<open>KeyboardInterrupt\<close> by the interrupt signal or status 1, the rest with a traceback
  and status 1.
\<close>

fun exits_0 :: "ending \<Rightarrow> bool" where
  "exits_0 Returned = True"
| "exits_0 (Uncaught (NonException (SystemExit s))) = (s = 0)"
| "exits_0 (Uncaught e) = False"

text \<open>
  A run of the script over a configured list, from an empty console, and the script as
  it is (\<open>if __name__ == "__main__": discover_endpoints()\<close>).
\<close>

definition main_with ::
  "('w, 'h) connect \<Rightarrow> ('w, 'h) describe \<Rightarrow> string list \<Rightarrow> 'w \<Rightarrow> ending \<times> 'w state"
where
  "main_with Client view_api configured w =
     (case for_space_in Client view_api configured (w, []) of (r, st) \<Rightarrow> (module_end r, st))"

definition main :: "('w, 'h) connect \<Rightarrow> ('w, 'h) describe \<Rightarrow> 'w \<Rightarrow> ending \<times> 'w state" where
  "main Client view_api w =
     (case discover_endpoints Client view_api (w, []) of (r, st) \<Rightarrow> (module_end r, st))"

subsection \<open>Vocabulary of the properties\<close>

text \<open>The three banner lines that label the section of an identifier.\<close>

definition header :: "string \<Rightarrow> string list" where
  "header space =
     [CHR 0x0A # replicate 60 (CHR ''=''),
      ''Discovering endpoints for: '' @ space,
      replicate 60 (CHR ''='')]"

text \<open>
  What the library answers when the body runs for one identifier: the constructor
  raises, or it returns a client whose \<open>view_api\<close> raises, or both return; then either
  \<open>print\<close> raises on the text returned, or the text is printed.
\<close>

datatype response =
  Connect_raised raised | Describe_raised raised | Print_raised raised | Described string

definition respond ::
  "('w, 'h) connect \<Rightarrow> ('w, 'h) describe \<Rightarrow> string \<Rightarrow> 'w \<Rightarrow> response \<times> 'w"
where
  "respond Client view_api space w =
     (case Client space w of
        (Inl e, w1) \<Rightarrow> (Connect_raised e, w1)
      | (Inr client, w1) \<Rightarrow>
          (case view_api client w1 of
             (Inl e, w2) \<Rightarrow> (Describe_raised e, w2)
           | (Inr (Printable api), w2) \<Rightarrow> (Described api, w2)
           | (Inr (Unprintable api e), w2) \<Rightarrow> (Print_raised e, w2)))"

fun uncatchable :: "response \<Rightarrow> bool" where
  "uncatchable (Connect_raised (NonException d)) = True"
| "uncatchable (Describe_raised (NonException d)) = True"
| "uncatchable (Print_raised (NonException d)) = True"
| "uncatchable r = False"

text \<open>
  The answers the library gives in the course of a run over a list, one for each
  identifier the loop reaches.
\<close>

fun responses ::
  "('w, 'h) connect \<Rightarrow> ('w, 'h) describe \<Rightarrow> string list \<Rightarrow> 'w \<Rightarrow> response list"
where
  "responses Client view_api [] w = []"
| "responses Client view_api (space # rest) w =
     (case respond Client view_api space w of
        (r, w') \<Rightarrow> r # (if uncatchable r then [] else responses Client view_api rest w'))"

text \<open>The events of one pass through the loop body, as a function of the answer.\<close>

fun completes :: "response \<Rightarrow> raised + unit" where
  "completes (Connect_raised (NonException d)) = Inl (NonException d)"
| "completes (Describe_raised (NonException d)) = Inl (NonException d)"
| "completes (Print_raised (NonException d)) = Inl (NonException d)"
| "completes r = Inr ()"

fun section_events :: "string \<Rightarrow> response \<Rightarrow> event list" where
  "section_events space (Connect_raised (Exception d)) =
     map Print (header space) @
     [Call_Client space, Print (''Failed to connect to '' @ space @ '': '' @ d)]"
| "section_events space (Connect_raised (NonException d)) =
     map Print (header space) @ [Call_Client space]"
| "section_events space (Describe_raised (Exception d)) =
     map Print (header space) @
     [Call_Client space, Call_view_api, Print (''Failed to connect to '' @ space @ '': '' @ d)]"
| "section_events space (Describe_raised (NonException d)) =
     map Print (header space) @ [Call_Client space, Call_view_api]"
| "section_events space (Print_raised (Exception d)) =
     map Print (header space) @
     [Call_Client space, Call_view_api, Print (''Failed to connect to '' @ space @ '': '' @ d)]"
| "section_events space (Print_raised (NonException d)) =
     map Print (header space) @ [Call_Client space, Call_view_api]"
| "section_events space (Described api) =
     map Print (header space) @ [Call_Client space, Call_view_api, Print api]"

subsection \<open>Sample collaborators\<close>

text \<open>Library behaviours used to instantiate the theorems; the world is \<open>unit\<close> or a call counter.\<close>

definition refused_Client :: "(unit, unit) connect" where
  "refused_Client space w = (Inl (Exception ''Connection refused''), w)"


definition ready_Client :: "(unit, unit) connect" where
  "ready_Client space w = (Inr (), w)"

definition named_view_api :: "(unit, unit) describe" where
  "named_view_api client w = (Inr (Printable ''- predict(text) -> audio''), w)"

definition interrupted_view_api :: "(unit, unit) describe" where
  "interrupted_view_api client w = (Inl (NonException KeyboardInterrupt), w)"

definition timeout_Client :: "(nat, nat) connect" where
  "timeout_Client space n = (Inl (Exception ''The read operation timed out''), Suc n)"

definition timeout_view_api :: "(unit, unit) describe" where
  "timeout_view_api client w = (Inl (Exception ''The read operation timed out''), w)"

definition counting_Client :: "(nat, nat) connect" where
  "counting_Client space n = (Inr n, Suc n)"

definition counting_view_api :: "(nat, nat) describe" where
  "counting_view_api client n =
     (if even client then Inr (Printable ''- predict(text) -> audio'')
      else Inl (Exception ''Could not fetch config''),
      Suc n)"

text \<open>A schema with an arrow (U+2192, three bytes in UTF-8) on a console that is ASCII.\<close>

definition arrow_view_api :: "(unit, unit) describe" where
  "arrow_view_api client w =
     (Inr (Unprintable (''- predict(text) '' @ [CHR 0xE2, CHR 0x86, CHR 0x92] @ '' audio'')
                       (Exception ''ordinal not in range(128)'')), w)"


subsection \<open>The loop body as a function of the answer\<close>

lemma stdout_append: "stdout (xs @ ys) = stdout xs @ stdout ys"
  by (simp add: stdout_def)

lemma stdout_Prints: "stdout (map Print ls) = ls"
  by (induction ls) (simp_all add: stdout_def)

lemma try_except_respond:
  "try_except Client view_api space (w, tr) =
     (case respond Client view_api space w of
        (r, w') \<Rightarrow> (completes r, (w', tr @ section_events space r)))"
  by (auto simp: try_except_def try_suite_def respond_def print_def header_def Let_def
      split: prod.splits sum.splits raised.splits returned.splits)

lemma completes_Inr_iff:
  "completes r = Inr u \<longleftrightarrow> \<not> uncatchable r" "Inr u = completes r \<longleftrightarrow> \<not> uncatchable r"
  by (cases r rule: uncatchable.cases; simp)+

lemma completes_Inl: "completes r = Inl e \<Longrightarrow> uncatchable r"
  by (cases r rule: uncatchable.cases) auto

lemma for_space_in_append:
  "for_space_in Client view_api (xs @ ys) st =
     (case for_space_in Client view_api xs st of
        (Inl e, st') \<Rightarrow> (Inl e, st')
      | (Inr u, st') \<Rightarrow> for_space_in Client view_api ys st')"
  by (induction xs arbitrary: st) (auto split: prod.splits sum.splits)

lemma for_space_in_Cons:
  "for_space_in Client view_api (space # rest) (w, tr) =
     (case respond Client view_api space w of
        (r, w') \<Rightarrow>
          if uncatchable r then (completes r, (w', tr @ section_events space r))
          else for_space_in Client view_api rest (w', tr @ section_events space r))"
  by (auto simp: try_except_respond completes_Inr_iff split: prod.splits sum.splits dest: completes_Inl)

lemma trace_by_responses:
  "snd (snd (for_space_in Client view_api xs (w, tr))) =
     tr @ concat (map (\<lambda>(space, r). section_events space r)
                      (zip xs (responses Client view_api xs w)))"
proof (induction xs arbitrary: w tr)
  case Nil
  show ?case by simp
next
  case (Cons space rest)
  obtain r w' where r: "respond Client view_api space w = (r, w')"
    by (cases "respond Client view_api space w")
  show ?case
  proof (cases "uncatchable r")
    case True
    with r show ?thesis by (simp add: for_space_in_Cons del: for_space_in.simps)
  next
    case False
    with r Cons.IH [of w' "tr @ section_events space r"] show ?thesis
      by (simp add: for_space_in_Cons del: for_space_in.simps)
  qed
qed

lemma result_by_responses:
  "fst (for_space_in Client view_api xs (w, tr)) =
     (if responses Client view_api xs w = [] then Inr ()
      else completes (last (responses Client view_api xs w)))"
proof (induction xs arbitrary: w tr)
  case Nil
  show ?case by simp
next
  case (Cons space rest)
  obtain r w' where r: "respond Client view_api space w = (r, w')"
    by (cases "respond Client view_api space w")
  show ?case
  proof (cases "uncatchable r")
    case True
    with r show ?thesis by (simp add: for_space_in_Cons del: for_space_in.simps)
  next
    case False
    with r Cons.IH [of w' "tr @ section_events space r"] show ?thesis
      by (simp add: for_space_in_Cons completes_Inr_iff del: for_space_in.simps)
  qed
qed



lemma trace_extends:
  "\<exists>ev. snd (snd (for_space_in Client view_api xs (w, tr))) = tr @ ev"
  by (simp add: trace_by_responses)

lemma fst_main_with:
  "fst (main_with Client view_api xs w) = module_end (fst (for_space_in Client view_api xs (w, [])))"
  by (simp add: main_with_def split: prod.splits)

lemma snd_main_with:
  "snd (main_with Client view_api xs w) = snd (for_space_in Client view_api xs (w, []))"
  by (simp add: main_with_def split: prod.splits)

lemma rule_line: "replicate 60 c = c # replicate 59 c"
  by (simp add: eval_nat_numeral)

lemma module_end_Returned: "module_end x = Returned \<longleftrightarrow> x = Inr ()"
  by (cases x) simp_all

lemma stdout_section_caught:
  "\<not> uncatchable r \<Longrightarrow> \<exists>body. stdout (section_events space r) = header space @ [body]"
  by (cases r rule: uncatchable.cases)
     (simp_all add: stdout_append stdout_Prints, simp_all add: stdout_def)

lemma sections_of_normal_loop:
  "fst (for_space_in Client view_api xs (w, tr)) = Inr () \<Longrightarrow>
     \<exists>bodies. length bodies = length xs
       \<and> stdout (snd (snd (for_space_in Client view_api xs (w, tr)))) =
           stdout tr @ concat (map (\<lambda>(space, body). header space @ [body]) (zip xs bodies))"
proof (induction xs arbitrary: w tr)
  case Nil
  show ?case by simp
next
  case (Cons space rest)
  obtain r w' where r: "respond Client view_api space w = (r, w')"
    by (cases "respond Client view_api space w")
  from Cons.prems r have nu: "\<not> uncatchable r"
    by (auto simp: for_space_in_Cons completes_Inr_iff simp del: for_space_in.simps
        split: if_splits)
  with r have step: "for_space_in Client view_api (space # rest) (w, tr) =
      for_space_in Client view_api rest (w', tr @ section_events space r)"
    by (simp add: for_space_in_Cons del: for_space_in.simps)
  with Cons.prems have "fst (for_space_in Client view_api rest (w', tr @ section_events space r)) = Inr ()"
    by simp
  from Cons.IH [OF this] obtain bodies where
    b: "length bodies = length rest"
       "stdout (snd (snd (for_space_in Client view_api rest (w', tr @ section_events space r)))) =
          stdout (tr @ section_events space r)
          @ concat (map (\<lambda>(space, body). header space @ [body]) (zip rest bodies))"
    by blast
  from nu obtain body where body: "stdout (section_events space r) = header space @ [body]"
    using stdout_section_caught by blast
  have "length (body # bodies) = length (space # rest)"
    using b(1) by simp
  moreover have "stdout (snd (snd (for_space_in Client view_api (space # rest) (w, tr)))) =
      stdout tr @ concat (map (\<lambda>(space, body). header space @ [body])
                              (zip (space # rest) (body # bodies)))"
    unfolding step b(2) by (simp add: stdout_append body)
  ultimately show ?case by blast
qed

lemma section_events_begin:
  "\<exists>ev. section_events space r = map Print (header space) @ Call_Client space # ev
      \<and> (\<forall>d. r = Connect_raised (Exception d) \<longrightarrow>
             ev = [Print (''Failed to connect to '' @ space @ '': '' @ d)])
      \<and> (\<forall>d. r = Connect_raised (NonException d) \<longrightarrow> ev = [])"
  by (cases "(space, r)" rule: section_events.cases) simp_all

subsection \<open>Properties of the script\<close>




text \<open>
  C2, as the code has it. For every configured list and every run that ends normally
  (no failure outside class \<open>Exception\<close> is raised), the console is, identifier by
  identifier in list order, the banner of the identifier followed by one more line
  (the schema or the error line): exactly one labelled section each.
\<close>

theorem one_section_per_identifier:
  assumes "fst (main_with Client view_api configured w) = Returned"
  shows "\<exists>bodies. length bodies = length configured
           \<and> stdout (snd (snd (main_with Client view_api configured w))) =
               concat (map (\<lambda>(space, body). header space @ [body]) (zip configured bodies))"
proof -
  from assms have "fst (for_space_in Client view_api configured (w, [])) = Inr ()"
    by (simp add: fst_main_with module_end_Returned)
  from sections_of_normal_loop [OF this] show ?thesis
    by (simp add: snd_main_with stdout_def)
qed

theorem one_section_per_identifier_witness:
  "fst (main ready_Client named_view_api ()) = Returned
   \<and> stdout (snd (snd (main ready_Client named_view_api ()))) =
       header ''innoai/Edge-TTS-Text-to-Speech'' @ [''- predict(text) -> audio'']
       @ header ''k2-fsa/text-to-speech'' @ [''- predict(text) -> audio'']"
proof -
  have m: "main ready_Client named_view_api () = main_with ready_Client named_view_api spaces ()"
    by (simp add: main_def main_with_def discover_endpoints_def)
  have e: "fst (main_with ready_Client named_view_api spaces ()) = Returned"
    by (simp add: main_with_def spaces_def try_except_def try_suite_def
        ready_Client_def named_view_api_def)
  from one_section_per_identifier [OF e] m e show ?thesis
    by (simp add: main_with_def spaces_def try_except_def try_suite_def print_def header_def
        ready_Client_def named_view_api_def stdout_def)
qed

text \<open>
  C2 as stated holds for every list. On the script's own list, when \<open>view_api\<close> is
  interrupted at the first identifier, the console holds the banner of the first
  identifier and no section for the second.
\<close>

theorem interrupt_cuts_sections_counterexample:
  "stdout (snd (snd (main ready_Client interrupted_view_api ()))) =
     header ''innoai/Edge-TTS-Text-to-Speech''
   \<and> ''Discovering endpoints for: k2-fsa/text-to-speech''
       \<notin> set (stdout (snd (snd (main ready_Client interrupted_view_api ()))))"
  by (simp add: main_def discover_endpoints_def spaces_def try_except_def try_suite_def
      print_def header_def ready_Client_def interrupted_view_api_def stdout_def rule_line)

text \<open>
  C3, as the code has it. Let the loop have come through the identifiers before
  \<open>space\<close> normally. If the constructor returns a client, \<open>view_api\<close> returns the text
  \<open>api\<close> and the console takes that text, the body for \<open>space\<close> prints the banner and
  then \<open>api\<close> itself, unchanged, and the console of the whole run holds the banner of
  \<open>space\<close> followed by \<open>api\<close>.
\<close>

theorem schema_printed_verbatim:
  assumes "for_space_in Client view_api pre (w0, []) = (Inr (), (w, tr))"
    and "Client space w = (Inr client, w1)"
    and "view_api client w1 = (Inr (Printable api), w2)"
  shows "try_except Client view_api space (w, tr) =
           (Inr (), (w2, tr @ map Print (header space)
                            @ [Call_Client space, Call_view_api, Print api]))
         \<and> stdout (snd (snd (try_except Client view_api space (w, tr)))) =
             stdout tr @ header space @ [api]
         \<and> (\<exists>later. stdout (snd (snd (main_with Client view_api (pre @ space # rest) w0))) =
               stdout tr @ header space @ [api] @ later)"
proof -
  define tr' where
    "tr' = tr @ map Print (header space) @ [Call_Client space, Call_view_api, Print api]"
  from assms(2,3) have "respond Client view_api space w = (Described api, w2)"
    by (simp add: respond_def)
  then have body: "try_except Client view_api space (w, tr) = (Inr (), (w2, tr'))"
    by (simp add: try_except_respond tr'_def)
  have out: "stdout tr' = stdout tr @ header space @ [api]"
    by (simp add: tr'_def stdout_append stdout_Prints) (simp add: stdout_def)
  from body assms(1) have loop: "for_space_in Client view_api (pre @ space # rest) (w0, []) =
      for_space_in Client view_api rest (w2, tr')"
    by (simp add: for_space_in_append)
  obtain ev where "snd (snd (for_space_in Client view_api rest (w2, tr'))) = tr' @ ev"
    using trace_extends [of Client view_api rest w2 tr'] by (elim exE)
  with loop have "snd (snd (main_with Client view_api (pre @ space # rest) w0)) = tr' @ ev"
    by (simp add: snd_main_with)
  then have "stdout (snd (snd (main_with Client view_api (pre @ space # rest) w0))) =
      stdout tr @ header space @ [api] @ stdout ev"
    by (simp add: stdout_append out)
  with body out show ?thesis
    unfolding tr'_def by auto
qed

theorem schema_printed_verbatim_witness:
  "stdout (snd (snd (main_with counting_Client counting_view_api [''A'', ''B'', ''C''] 0))) =
     header ''A'' @ [''- predict(text) -> audio'']
     @ header ''B'' @ [''- predict(text) -> audio'']
     @ header ''C'' @ [''- predict(text) -> audio'']"
proof -
  have pre: "for_space_in counting_Client counting_view_api [''A''] (0, []) =
      (Inr (), (2, map Print (header ''A'')
                   @ [Call_Client ''A'', Call_view_api, Print ''- predict(text) -> audio'']))"
    by (simp add: try_except_def try_suite_def print_def header_def
        counting_Client_def counting_view_api_def)
  have c: "counting_Client ''B'' 2 = (Inr 2, 3)"
    by (simp add: counting_Client_def)
  have v: "counting_view_api 2 3 = (Inr (Printable ''- predict(text) -> audio''), 4)"
    by (simp add: counting_view_api_def)
  from schema_printed_verbatim [OF pre c v, of "[''C'']"] show ?thesis
    by (simp add: main_with_def try_except_def try_suite_def print_def header_def
        counting_Client_def counting_view_api_def stdout_def)
qed

text \<open>
  C3 as stated asks only that the two calls succeed. With a constructor that returns
  and a \<open>view_api\<close> that returns a schema the console cannot encode, the \<open>print\<close> of the
  schema raises inside \<open>try\<close>, the handler takes it, and the section of \<open>A\<close> holds the
  error line in place of the schema.
\<close>

theorem unencodable_schema_counterexample:
  "ready_Client ''A'' () = (Inr (), ())
   \<and> arrow_view_api () () =
       (Inr (Unprintable (''- predict(text) '' @ [CHR 0xE2, CHR 0x86, CHR 0x92] @ '' audio'')
                         (Exception ''ordinal not in range(128)'')), ())
   \<and> stdout (snd (snd (main_with ready_Client arrow_view_api [''A''] ()))) =
       header ''A'' @ [''Failed to connect to A: ordinal not in range(128)'']
   \<and> ''- predict(text) '' @ [CHR 0xE2, CHR 0x86, CHR 0x92] @ '' audio''
       \<notin> set (stdout (snd (snd (main_with ready_Client arrow_view_api [''A''] ()))))"
  by (simp add: main_with_def try_except_def try_suite_def print_def header_def
      ready_Client_def arrow_view_api_def stdout_def rule_line)




text \<open>
  C5. When the configured list is empty, the run prints nothing for any identifier (the
  trace and the outside world are left as they were), \<open>discover_endpoints\<close> returns and
  the process ends with exit status 0.
\<close>

theorem empty_list_no_output:
  "for_space_in Client view_api [] st = (Inr (), st)
   \<and> main_with Client view_api [] w = (Returned, (w, []))
   \<and> exits_0 (fst (main_with Client view_api [] w))
   \<and> stdout (snd (snd (main_with Client view_api [] w))) = []"
  by (simp add: main_with_def stdout_def)

text \<open>
  C6. Two runs over the same list in which the library gives the same answers, whatever
  else differs (the library, its handles, the state of the world), end the same way
  and leave the same trace, so the same console transcript: the run is a function of
  the list and of the answers.
\<close>

theorem same_responses_same_transcript:
  assumes "responses ClientA view_apiA configured w1 = responses ClientB view_apiB configured w2"
  shows "fst (main_with ClientA view_apiA configured w1) = fst (main_with ClientB view_apiB configured w2)
         \<and> snd (snd (main_with ClientA view_apiA configured w1)) =
             snd (snd (main_with ClientB view_apiB configured w2))
         \<and> stdout (snd (snd (main_with ClientA view_apiA configured w1))) =
             stdout (snd (snd (main_with ClientB view_apiB configured w2)))"
  using assms
  by (simp add: fst_main_with snd_main_with trace_by_responses result_by_responses)

theorem same_responses_same_transcript_witness:
  "responses ready_Client named_view_api [''A'', ''B''] () =
     responses counting_Client counting_view_api [''A'', ''B''] 0
   \<and> stdout (snd (snd (main_with ready_Client named_view_api [''A'', ''B''] ()))) =
       stdout (snd (snd (main_with counting_Client counting_view_api [''A'', ''B''] 0)))
   \<and> snd (main_with ready_Client named_view_api [''A'', ''B''] ()) =
       ((), map Print (header ''A'')
            @ [Call_Client ''A'', Call_view_api, Print ''- predict(text) -> audio'']
            @ map Print (header ''B'')
            @ [Call_Client ''B'', Call_view_api, Print ''- predict(text) -> audio''])"
proof -
  have r: "responses ready_Client named_view_api [''A'', ''B''] () =
      responses counting_Client counting_view_api [''A'', ''B''] 0"
    by (simp add: respond_def ready_Client_def named_view_api_def
        counting_Client_def counting_view_api_def)
  have "snd (main_with ready_Client named_view_api [''A'', ''B''] ()) =
       ((), map Print (header ''A'')
            @ [Call_Client ''A'', Call_view_api, Print ''- predict(text) -> audio'']
            @ map Print (header ''B'')
            @ [Call_Client ''B'', Call_view_api, Print ''- predict(text) -> audio''])"
    by (simp add: main_with_def try_except_def try_suite_def print_def header_def
        ready_Client_def named_view_api_def)
  with same_responses_same_transcript [OF r] r show ?thesis
    by simp
qed




text \<open>
  C8. Whatever the library does, the body for \<open>space\<close> first prints the three banner
  lines and only then calls the constructor. When the constructor raises an
  \<open>Exception\<close>, the error line is the one event that follows in the section; when it
  raises anything else, the section ends with the call.
\<close>

theorem header_before_connection:
  "\<exists>ev. snd (snd (try_except Client view_api space (w, tr))) =
          tr @ map Print (header space) @ Call_Client space # ev
      \<and> (\<forall>d. fst (Client space w) = Inl (Exception d) \<longrightarrow>
             ev = [Print (''Failed to connect to '' @ space @ '': '' @ d)])
      \<and> (\<forall>d. fst (Client space w) = Inl (NonException d) \<longrightarrow> ev = [])"
proof -
  obtain r w' where r: "respond Client view_api space w = (r, w')"
    by (cases "respond Client view_api space w")
  then have t: "snd (snd (try_except Client view_api space (w, tr))) = tr @ section_events space r"
    by (simp add: try_except_respond)
  have c: "r = Connect_raised e" if "fst (Client space w) = Inl e" for e
    using r that by (auto simp: respond_def split: prod.splits sum.splits)
  obtain ev where ev: "section_events space r = map Print (header space) @ Call_Client space # ev"
    and caught: "\<And>d. r = Connect_raised (Exception d) \<Longrightarrow>
        ev = [Print (''Failed to connect to '' @ space @ '': '' @ d)]"
    and passed: "\<And>d. r = Connect_raised (NonException d) \<Longrightarrow> ev = []"
    using section_events_begin [of space r] by blast
  show ?thesis
  proof (intro exI conjI allI impI)
    show "snd (snd (try_except Client view_api space (w, tr))) =
        tr @ map Print (header space) @ Call_Client space # ev"
      by (simp only: t ev)
  next
    fix d assume "fst (Client space w) = Inl (Exception d)"
    then show "ev = [Print (''Failed to connect to '' @ space @ '': '' @ d)]"
      by (intro caught c)
  next
    fix d assume "fst (Client space w) = Inl (NonException d)"
    then show "ev = []"
      by (intro passed c)
  qed
qed

theorem header_before_connection_witness:
  "snd (snd (try_except refused_Client named_view_api ''A'' ((), []))) =
     map Print (header ''A'')
     @ [Call_Client ''A'', Print ''Failed to connect to A: Connection refused'']"
proof -
  have "fst (refused_Client ''A'' ()) = Inl (Exception ''Connection refused'')"
    by (simp add: refused_Client_def)
  with header_before_connection [of refused_Client named_view_api "''A''" "()" "[]"]
  show ?thesis by auto
qed

text \<open>
  C9. A failure with detail \<open>d\<close> gives the console the same section, ending in
  \<open>Failed to connect to <space>: <d>\<close>, whether the constructor raised it or the
  constructor returned and \<open>view_api\<close> raised it: the console does not tell the two
  phases apart.
\<close>

theorem same_wording_for_both_phases:
  assumes "ClientA space w1 = (Inl (Exception d), wA')"
    and "ClientB space w2 = (Inr client, w)"
    and "view_apiB client w = (Inl (Exception d), wB')"
  shows "stdout (snd (snd (try_except ClientA view_apiA space (w1, tr)))) =
           stdout tr @ header space @ [''Failed to connect to '' @ space @ '': '' @ d]
         \<and> stdout (snd (snd (try_except ClientB view_apiB space (w2, tr)))) =
             stdout tr @ header space @ [''Failed to connect to '' @ space @ '': '' @ d]
         \<and> fst (try_except ClientA view_apiA space (w1, tr)) = Inr ()
         \<and> fst (try_except ClientB view_apiB space (w2, tr)) = Inr ()"
proof -
  define line where "line = ''Failed to connect to '' @ space @ '': '' @ d"
  from assms(1) have 1: "try_except ClientA view_apiA space (w1, tr) =
      (Inr (), (wA', tr @ map Print (header space) @ [Call_Client space, Print line]))"
    by (simp add: try_except_respond respond_def line_def)
  from assms(2,3) have 2: "try_except ClientB view_apiB space (w2, tr) =
      (Inr (), (wB', tr @ map Print (header space)
                       @ [Call_Client space, Call_view_api, Print line]))"
    by (simp add: try_except_respond respond_def line_def)
  have "stdout (tr @ map Print (header space) @ [Call_Client space, Print line]) =
      stdout tr @ header space @ [line]"
    by (simp add: stdout_append stdout_Prints) (simp add: stdout_def)
  moreover have "stdout (tr @ map Print (header space)
      @ [Call_Client space, Call_view_api, Print line]) = stdout tr @ header space @ [line]"
    by (simp add: stdout_append stdout_Prints) (simp add: stdout_def)
  ultimately show ?thesis
    unfolding 1 2 line_def by simp
qed

theorem same_wording_for_both_phases_witness:
  "stdout (snd (snd (try_except timeout_Client counting_view_api ''A'' (0, [])))) =
     header ''A'' @ [''Failed to connect to A: The read operation timed out'']
   \<and> stdout (snd (snd (try_except ready_Client timeout_view_api ''A'' ((), [])))) =
       header ''A'' @ [''Failed to connect to A: The read operation timed out'']"
proof -
  have 1: "timeout_Client ''A'' 0 = (Inl (Exception ''The read operation timed out''), 1)"
    by (simp add: timeout_Client_def)
  have 2: "ready_Client ''A'' () = (Inr (), ())"
    by (simp add: ready_Client_def)
  have 3: "timeout_view_api () () = (Inl (Exception ''The read operation timed out''), ())"
    by (simp add: timeout_view_api_def)
  from same_wording_for_both_phases
    [where ClientA = timeout_Client and ClientB = ready_Client
       and view_apiA = counting_view_api and view_apiB = timeout_view_api and tr = "[]", OF 1 2 3]
  show ?thesis by (simp add: stdout_def)
qed

text \<open>
  C10. Let the loop have come through the identifiers before \<open>space\<close> normally. If the
  constructor, or \<open>view_api\<close>, raises a failure that is not an \<open>Exception\<close>, the handler
  does not take it: the body ends with that failure, nothing more is printed, and the
  run ends there uncaught, whatever identifiers remain in the list.
\<close>

theorem non_exception_propagates:
  assumes "for_space_in Client view_api pre (w0, []) = (Inr (), (w, tr))"
    and "(Client space w = (Inl (NonException d), w') \<and> calls = [Call_Client space])
         \<or> (\<exists>client w1. Client space w = (Inr client, w1)
                \<and> view_api client w1 = (Inl (NonException d), w')
                \<and> calls = [Call_Client space, Call_view_api])"
  shows "try_except Client view_api space (w, tr) =
           (Inl (NonException d), (w', tr @ map Print (header space) @ calls))
         \<and> main_with Client view_api (pre @ space # rest) w0 =
             (Uncaught (NonException d), (w', tr @ map Print (header space) @ calls))"
proof -
  from assms(2) have "\<exists>r. respond Client view_api space w = (r, w')
      \<and> completes r = Inl (NonException d)
      \<and> section_events space r = map Print (header space) @ calls"
    by (auto simp: respond_def)
  then have body: "try_except Client view_api space (w, tr) =
      (Inl (NonException d), (w', tr @ map Print (header space) @ calls))"
    by (auto simp: try_except_respond)
  with assms(1) show ?thesis
    by (simp add: main_with_def for_space_in_append)
qed

theorem non_exception_propagates_witness:
  "main_with ready_Client interrupted_view_api [''A'', ''B''] () =
     (Uncaught (NonException KeyboardInterrupt),
      ((), map Print (header ''A'') @ [Call_Client ''A'', Call_view_api]))"
proof -
  have pre: "for_space_in ready_Client interrupted_view_api [] ((), []) = (Inr (), ((), []))"
    by simp
  have int: "(ready_Client ''A'' () = (Inl (NonException KeyboardInterrupt), ())
        \<and> [Call_Client ''A'', Call_view_api] = [Call_Client ''A''])
      \<or> (\<exists>client w1. ready_Client ''A'' () = (Inr client, w1)
        \<and> interrupted_view_api client w1 = (Inl (NonException KeyboardInterrupt), ())
        \<and> [Call_Client ''A'', Call_view_api] = [Call_Client ''A'', Call_view_api])"
    by (simp add: ready_Client_def interrupted_view_api_def)
  from non_exception_propagates [OF pre int, of "[''B'']"] show ?thesis
    by simp
qed

end
